theory Spec2Isabelle
  imports Complex_Main
begin

section \<open>Numeric conventions\<close>

text \<open>
  The module \<^verbatim>\<open>oceanwaves.py\<close> computes with numpy arrays of float64. In the
  containers and their reductions a finite float is a \<^typ>\<open>real\<close> number and the
  arithmetic is exact: what is proved about them are shapes, exceptions, diagnostics
  and equalities between runs of one and the same computation, none of which depends
  on rounding. The spreading kernel branches on computed floats, and reversing an axis
  changes the order of the operations, so there every operation rounds, with the
  rounding and the library functions as parameters. A Python exception is a value of
  \<open>error\<close>, returned as \<open>Inl\<close>.
\<close>

datatype error =
    ShapeMismatch (actual: "nat list") (expected: "nat list")
  | ValueError
  | TypeError
  | IndexError
  | AttributeError
  | UnboundLocalError
  | ZeroDivisionError

subsection \<open>\<^verbatim>\<open>np.diff\<close> and \<^verbatim>\<open>np.trapz\<close> on one row\<close>

text \<open>\<^verbatim>\<open>np.diff(x)\<close> is \<^verbatim>\<open>x[1:] - x[:-1]\<close>.\<close>

definition diff :: "real list \<Rightarrow> real list" where
  "diff x = map2 (\<lambda>b a. b - a) (tl x) (butlast x)"

text \<open>\<^verbatim>\<open>y[1:] + y[:-1]\<close>, the sums of neighbouring samples.\<close>

definition pairsum :: "real list \<Rightarrow> real list" where
  "pairsum y = map2 (\<lambda>b a. b + a) (tl y) (butlast y)"

text \<open>
  \<^verbatim>\<open>np.trapz(y, x)\<close> evaluates \<^verbatim>\<open>(d * (y[1:] + y[:-1]) / 2.0).sum()\<close> with
  \<^verbatim>\<open>d = diff(x)\<close>. The product follows numpy's broadcasting: equal lengths are
  multiplied pointwise, a factor of length one is repeated, anything else raises
  \<^verbatim>\<open>ValueError\<close>.
\<close>

definition bcast_ok :: "nat \<Rightarrow> nat \<Rightarrow> bool" where
  "bcast_ok m n = (m = n \<or> m = 1 \<or> n = 1)"

definition trapz_val :: "real list \<Rightarrow> real list \<Rightarrow> real" where
  "trapz_val y x =
     (let d = diff x; s = pairsum y in
      if length d = length s then sum_list (map2 (\<lambda>a b. a * b / 2) d s)
      else if length d = 1 then sum_list (map (\<lambda>b. hd d * b / 2) s)
      else sum_list (map (\<lambda>a. a * hd s / 2) d))"

subsection \<open>Floats that are not finite\<close>

text \<open>
  Dividing numpy floats by zero and taking the root of a negative number do not raise:
  they yield an infinity or \<^verbatim>\<open>nan\<close> (with a warning). Results of such operations are
  values of \<open>npfloat\<close>. The sign of a zero is not modelled.
\<close>

datatype npfloat = Fin real | PInf | NInf | NaN

text \<open>\<^verbatim>\<open>a / b\<close> on finite numpy floats.\<close>

definition np_div :: "real \<Rightarrow> real \<Rightarrow> npfloat" where
  "np_div a b =
     (if b \<noteq> 0 then Fin (a / b)
      else if 0 < a then PInf else if a < 0 then NInf else NaN)"

fun np_sqrt :: "npfloat \<Rightarrow> npfloat" where
  "np_sqrt (Fin v) = (if 0 \<le> v then Fin (sqrt v) else NaN)"
| "np_sqrt PInf = PInf"
| "np_sqrt NInf = NaN"
| "np_sqrt NaN = NaN"

text \<open>\<^verbatim>\<open>c * v\<close> for a finite factor \<open>c > 0\<close>.\<close>

fun np_scale :: "real \<Rightarrow> npfloat \<Rightarrow> npfloat" where
  "np_scale c (Fin v) = Fin (c * v)"
| "np_scale c PInf = PInf"
| "np_scale c NInf = NInf"
| "np_scale c NaN = NaN"

fun np_sub :: "npfloat \<Rightarrow> npfloat \<Rightarrow> npfloat" where
  "np_sub (Fin a) (Fin b) = Fin (a - b)"
| "np_sub NaN _ = NaN"
| "np_sub _ NaN = NaN"
| "np_sub PInf PInf = NaN"
| "np_sub NInf NInf = NaN"
| "np_sub PInf _ = PInf"
| "np_sub NInf _ = NInf"
| "np_sub (Fin a) PInf = NInf"
| "np_sub (Fin a) NInf = PInf"

subsection \<open>Arrays\<close>

text \<open>
  An \<^verbatim>\<open>ndarray\<close> is its shape and its elements in C order. \<open>rows_of\<close> lists the
  one-dimensional slices along the last axis, \<^verbatim>\<open>a[..., :]\<close>, of an array of rank one
  or more.
\<close>

record 'a ndarray =
  shape :: "nat list"
  data :: "'a list"

definition full :: "nat list \<Rightarrow> 'a \<Rightarrow> 'a ndarray" where
  "full sh v = \<lparr>shape = sh, data = replicate (prod_list sh) v\<rparr>"

definition chunks :: "nat \<Rightarrow> nat \<Rightarrow> 'a list \<Rightarrow> 'a list list" where
  "chunks n k xs = map (\<lambda>i. take k (drop (i * k) xs)) [0..<n]"

definition rows_of :: "'a ndarray \<Rightarrow> 'a list list" where
  "rows_of a = chunks (prod_list (butlast (shape a))) (last (shape a)) (data a)"

text \<open>
  \<^verbatim>\<open>np.trapz(a, x)\<close> and \<^verbatim>\<open>np.trapz(a, x, axis=-1)\<close> for a one-dimensional \<open>x\<close>:
  the broadcast is decided by the shapes, then every row is integrated.
\<close>

definition trapz_last :: "real ndarray \<Rightarrow> real list \<Rightarrow> error + real ndarray" where
  "trapz_last a x =
     (if bcast_ok (length x - 1) (last (shape a) - 1)
      then Inr \<lparr>shape = butlast (shape a), data = map (\<lambda>r. trapz_val r x) (rows_of a)\<rparr>
      else Inl ValueError)"

text \<open>\<^verbatim>\<open>np.abs(a)\<close>.\<close>

definition abs_arr :: "real ndarray \<Rightarrow> real ndarray" where
  "abs_arr a = a\<lparr>data := map abs (data a)\<rparr>"

text \<open>
  \<^verbatim>\<open>a * w\<close> for a one-dimensional \<open>w\<close>, broadcast along the last axis of \<open>a\<close>.
\<close>

definition mul_last :: "real ndarray \<Rightarrow> real list \<Rightarrow> error + real ndarray" where
  "mul_last a w =
     (let k = last (shape a) in
      if k = length w then
        Inr (a\<lparr>data := concat (map (\<lambda>r. map2 (*) r w) (rows_of a))\<rparr>)
      else if length w = 1 then
        Inr (a\<lparr>data := map (\<lambda>v. v * hd w) (data a)\<rparr>)
      else if k = 1 then
        Inr \<lparr>shape = butlast (shape a) @ [length w],
             data = concat (map (\<lambda>r. map (\<lambda>v. hd r * v) w) (rows_of a))\<rparr>
      else Inl ValueError)"

text \<open>\<^verbatim>\<open>np.cumsum\<close> on one row.\<close>

fun cumsum_from :: "real \<Rightarrow> real list \<Rightarrow> real list" where
  "cumsum_from acc [] = []"
| "cumsum_from acc (v # vs) = (acc + v) # cumsum_from (acc + v) vs"

text \<open>
  \<^verbatim>\<open>scipy.integrate.cumtrapz(a, x, axis=-1, initial=0)\<close> on one row: the running
  trapezoidal sums, with the initial value in front. The function insists on
  \<^verbatim>\<open>len(x) == a.shape[-1]\<close>, so nothing is broadcast.
\<close>

definition cumtrapz_row :: "real list \<Rightarrow> real list \<Rightarrow> real list" where
  "cumtrapz_row y x = 0 # cumsum_from 0 (map2 (\<lambda>a b. a * b / 2) (diff x) (pairsum y))"

definition cumtrapz :: "real ndarray \<Rightarrow> real list \<Rightarrow> error + real ndarray" where
  "cumtrapz a x =
     (if last (shape a) = 0 then Inl ValueError
      else if length x = last (shape a)
      then Inr (a\<lparr>data := concat (map (\<lambda>r. cumtrapz_row r x) (rows_of a))\<rparr>)
      else Inl ValueError)"

text \<open>
  \<^verbatim>\<open>np.interp(x, xp, fp)\<close> at a finite \<open>x\<close>, over the knots \<open>zip xp fp\<close>: the value of
  the first knot to the left of the samples, of the last knot to their right, the knot's
  value on a knot, and the chord in between. numpy finds the interval by bisection and
  documents that \<open>xp\<close> must be increasing; on such \<open>xp\<close> the scan below finds the same
  interval.
\<close>

fun interp_knots :: "real \<Rightarrow> (real \<times> real) list \<Rightarrow> real" where
  "interp_knots x [] = 0"
| "interp_knots x [(x0, y0)] = y0"
| "interp_knots x ((x0, y0) # (x1, y1) # ks) =
     (if x < x1 then
        (if x \<le> x0 then y0 else (y1 - y0) / (x1 - x0) * (x - x0) + y0)
      else interp_knots x ((x1, y1) # ks))"

text \<open>
  \<^verbatim>\<open>np.interp\<close> at a float that may be infinite or \<^verbatim>\<open>nan\<close>. No samples, or lists of
  different lengths, raise \<^verbatim>\<open>ValueError\<close>. A \<^verbatim>\<open>nan\<close> query returns \<^verbatim>\<open>nan\<close>, except over a
  single sample, where numpy compares the query with the sample and returns its value.
\<close>

definition interp :: "npfloat \<Rightarrow> real list \<Rightarrow> real list \<Rightarrow> error + npfloat" where
  "interp x xp fp =
     (if xp = [] then Inl ValueError
      else if length xp = length fp
      then Inr (case x of
                  Fin v \<Rightarrow> Fin (interp_knots v (zip xp fp))
                | PInf \<Rightarrow> Fin (last fp)
                | NInf \<Rightarrow> Fin (hd fp)
                | NaN \<Rightarrow> (if length xp = 1 then Fin (hd fp) else NaN))
      else Inl ValueError)"

text \<open>
  \<^verbatim>\<open>np.max\<close> of a non-empty row, and \<^verbatim>\<open>np.argmax\<close> of a non-empty flattened array:
  the first position of the maximum.
\<close>

fun max_list :: "real list \<Rightarrow> real" where
  "max_list [] = 0"
| "max_list [v] = v"
| "max_list (v # w # vs) = max v (max_list (w # vs))"

definition argmax :: "real list \<Rightarrow> error + nat" where
  "argmax vs =
     (if vs = [] then Inl ValueError
      else Inr (length (takeWhile (\<lambda>v. v \<noteq> max_list vs) vs)))"

text \<open>
  \<^verbatim>\<open>np.max(a, axis=-1)\<close>: a reduction over an axis of length zero raises.
\<close>

definition max_last :: "real ndarray \<Rightarrow> error + real ndarray" where
  "max_last a =
     (if last (shape a) = 0 then Inl ValueError
      else Inr \<lparr>shape = butlast (shape a), data = map max_list (rows_of a)\<rparr>)"

text \<open>
  \<^verbatim>\<open>np.max(a, axis=-2)\<close> for an array of rank two or more: the rows are grouped by
  the axis before the last, and each group is reduced position by position.
\<close>

definition max_last2 :: "real ndarray \<Rightarrow> error + real ndarray" where
  "max_last2 a =
     (let sh = shape a; m = last (butlast sh); k = last sh;
          groups = chunks (prod_list (butlast (butlast sh))) m (rows_of a) in
      if m = 0 then Inl ValueError
      else Inr \<lparr>shape = butlast (butlast sh) @ [k],
               data = concat (map (\<lambda>g. map (\<lambda>j. max_list (map (\<lambda>r. r ! j) g)) [0..<k]) groups)\<rparr>)"

text \<open>\<^verbatim>\<open>xs[i]\<close> for a non-negative index.\<close>

definition getitem :: "'a list \<Rightarrow> nat \<Rightarrow> error + 'a" where
  "getitem xs i = (if i < length xs then Inr (xs ! i) else Inl IndexError)"

section \<open>Diagnostics\<close>

text \<open>
  What the module prints. \<open>UnknownUnitsHm0 u\<close> is the line \<^verbatim>\<open>unknown units u\<close> of
  \<^verbatim>\<open>Spec1.Hm0\<close>, \<open>UnknownUnits u\<close> the line \<^verbatim>\<open>unknown units:" u "\<close> of the other
  reductions, and \<open>IntegralNotOne ms v\<close> the line \<^verbatim>\<open>integral not 1 for ms= ms : v\<close> of
  the kernel.
\<close>

datatype message =
    UnknownUnitsHm0 string
  | UnknownUnits string
  | IntegralNotOne real npfloat

section \<open>Float arithmetic with the rounding as a parameter\<close>

text \<open>
  The arithmetic of the platform. \<open>round_f\<close> takes the exact result of \<^verbatim>\<open>+\<close>, \<^verbatim>\<open>-\<close>, \<^verbatim>\<open>*\<close>,
  \<^verbatim>\<open>/\<close> or \<^verbatim>\<open>np.sqrt\<close> on finite floats to the float that the operation returns (an
  infinity when it overflows). \<open>sum_f\<close> is the order in which numpy adds a row of eight
  or more elements, which it does in blocks, given the addition.
\<close>

record flib =
  round_f :: "real \<Rightarrow> npfloat"
  sum_f :: "(npfloat \<Rightarrow> npfloat \<Rightarrow> npfloat) \<Rightarrow> npfloat list \<Rightarrow> npfloat"

text \<open>
  The functions of the mathematical library that the spreading kernel calls, whose
  rounding no standard fixes. \<open>cos_f\<close> is \<^verbatim>\<open>np.cos\<close> on a finite float, \<open>power_f\<close> is \<^verbatim>\<open>**\<close>
  on a numpy float, which never raises, \<open>pypow_f\<close> is \<^verbatim>\<open>**\<close> on a Python float, which
  can raise \<^verbatim>\<open>OverflowError\<close> or \<^verbatim>\<open>ZeroDivisionError\<close>, and \<open>gamma_f\<close> is \<^verbatim>\<open>math.gamma\<close>
  away from its poles, which can raise \<^verbatim>\<open>OverflowError\<close>.
\<close>

record mathlib =
  cos_f :: "real \<Rightarrow> npfloat"
  power_f :: "npfloat \<Rightarrow> npfloat \<Rightarrow> npfloat"
  pypow_f :: "npfloat \<Rightarrow> npfloat \<Rightarrow> error + npfloat"
  gamma_f :: "real \<Rightarrow> error + npfloat"

text \<open>
  The sign of a float that is not \<^verbatim>\<open>nan\<close>, and the infinity of a sign (\<^verbatim>\<open>nan\<close> for no
  sign). The sign of a zero is not modelled.
\<close>

fun sgnf :: "npfloat \<Rightarrow> real" where
  "sgnf (Fin a) = sgn a"
| "sgnf PInf = 1"
| "sgnf NInf = - 1"
| "sgnf NaN = 0"

definition inf_of :: "real \<Rightarrow> npfloat" where
  "inf_of s = (if 0 < s then PInf else if s < 0 then NInf else NaN)"

text \<open>
  The four operations of IEEE 754 on float64: the rounded exact result on finite
  operands, the usual table on the others. They never raise.
\<close>

fun fl_mul :: "flib \<Rightarrow> npfloat \<Rightarrow> npfloat \<Rightarrow> npfloat" where
  "fl_mul L (Fin a) (Fin b) = round_f L (a * b)"
| "fl_mul L NaN y = NaN"
| "fl_mul L x NaN = NaN"
| "fl_mul L x y = inf_of (sgnf x * sgnf y)"

fun fl_div :: "flib \<Rightarrow> npfloat \<Rightarrow> npfloat \<Rightarrow> npfloat" where
  "fl_div L (Fin a) (Fin b) = (if b = 0 then inf_of (sgn a) else round_f L (a / b))"
| "fl_div L NaN y = NaN"
| "fl_div L x NaN = NaN"
| "fl_div L (Fin a) y = Fin 0"
| "fl_div L x (Fin b) = inf_of (sgnf x * (if b < 0 then - 1 else 1))"
| "fl_div L x y = NaN"

fun fl_add :: "flib \<Rightarrow> npfloat \<Rightarrow> npfloat \<Rightarrow> npfloat" where
  "fl_add L (Fin a) (Fin b) = round_f L (a + b)"
| "fl_add L NaN y = NaN"
| "fl_add L x NaN = NaN"
| "fl_add L PInf NInf = NaN"
| "fl_add L NInf PInf = NaN"
| "fl_add L (Fin a) y = y"
| "fl_add L x y = x"

fun np_neg :: "npfloat \<Rightarrow> npfloat" where
  "np_neg (Fin a) = Fin (- a)"
| "np_neg PInf = NInf"
| "np_neg NInf = PInf"
| "np_neg NaN = NaN"

definition fl_sub :: "flib \<Rightarrow> npfloat \<Rightarrow> npfloat \<Rightarrow> npfloat" where
  "fl_sub L x y = fl_add L x (np_neg y)"

text \<open>
  \<^verbatim>\<open>abs\<close>, \<^verbatim>\<open>np.maximum\<close> (which returns \<^verbatim>\<open>nan\<close> when either argument is \<^verbatim>\<open>nan\<close>), the
  comparisons \<^verbatim>\<open>x > 0\<close> and \<^verbatim>\<open>x < y\<close> (false on \<^verbatim>\<open>nan\<close>), and \<^verbatim>\<open>np.cos\<close>, which is
  \<^verbatim>\<open>nan\<close> at an infinity. None of them rounds.
\<close>

fun np_abs :: "npfloat \<Rightarrow> npfloat" where
  "np_abs (Fin a) = Fin \<bar>a\<bar>"
| "np_abs PInf = PInf"
| "np_abs NInf = PInf"
| "np_abs NaN = NaN"

fun np_maximum :: "npfloat \<Rightarrow> npfloat \<Rightarrow> npfloat" where
  "np_maximum (Fin a) (Fin b) = Fin (max a b)"
| "np_maximum NaN y = NaN"
| "np_maximum x NaN = NaN"
| "np_maximum PInf y = PInf"
| "np_maximum x PInf = PInf"
| "np_maximum NInf y = y"
| "np_maximum x NInf = x"

fun np_pos :: "npfloat \<Rightarrow> bool" where
  "np_pos (Fin a) = (0 < a)"
| "np_pos PInf = True"
| "np_pos NInf = False"
| "np_pos NaN = False"

fun np_less :: "npfloat \<Rightarrow> npfloat \<Rightarrow> bool" where
  "np_less (Fin a) (Fin b) = (a < b)"
| "np_less NaN y = False"
| "np_less x NaN = False"
| "np_less x NInf = False"
| "np_less PInf y = False"
| "np_less x y = True"

fun np_cos :: "mathlib \<Rightarrow> npfloat \<Rightarrow> npfloat" where
  "np_cos M (Fin a) = cos_f M a"
| "np_cos M x = NaN"

text \<open>
  The float64 constants of the kernel: \<^verbatim>\<open>np.pi\<close>, \<^verbatim>\<open>1e-10\<close> and \<^verbatim>\<open>1e-4\<close> are the floats
  next to the decimal numbers, written here as fractions.
\<close>

definition double_pi :: real where
  "double_pi = 884279719003555 / 2 ^ 48"

definition double_1em10 :: real where
  "double_1em10 = 7737125245533627 / 2 ^ 86"

definition double_1em4 :: real where
  "double_1em4 = 7378697629483821 / 2 ^ 66"

subsection \<open>\<^verbatim>\<open>np.sqrt\<close>, sums and \<^verbatim>\<open>np.trapz\<close> on floats\<close>


text \<open>
  The sum of one row, \<^verbatim>\<open>np.add.reduce\<close>: nothing is added for a single element, fewer
  than eight elements are added from left to right, and longer rows in the order of
  the library.
\<close>

fun sum_ltr :: "flib \<Rightarrow> npfloat \<Rightarrow> npfloat list \<Rightarrow> npfloat" where
  "sum_ltr L acc [] = acc"
| "sum_ltr L acc (t # ts) = sum_ltr L (fl_add L acc t) ts"

definition add_reduce :: "flib \<Rightarrow> npfloat list \<Rightarrow> npfloat" where
  "add_reduce L ts =
     (case ts of
        [] \<Rightarrow> Fin 0
      | t # ts' \<Rightarrow> if length ts < 8 then sum_ltr L t ts' else sum_f L (fl_add L) ts)"

text \<open>
  \<^verbatim>\<open>np.diff(x)\<close>, \<^verbatim>\<open>y[1:] + y[:-1]\<close> and \<^verbatim>\<open>np.trapz(y, x)\<close>, which is
  \<^verbatim>\<open>(d * (y[1:] + y[:-1]) / 2.0).sum()\<close>, as \<open>diff\<close>, \<open>pairsum\<close> and \<open>trapz_val\<close> above, now
  with every operation rounded.
\<close>

definition fl_diff :: "flib \<Rightarrow> npfloat list \<Rightarrow> npfloat list" where
  "fl_diff L x = map2 (\<lambda>b a. fl_sub L b a) (tl x) (butlast x)"

definition fl_pairsum :: "flib \<Rightarrow> npfloat list \<Rightarrow> npfloat list" where
  "fl_pairsum L y = map2 (\<lambda>b a. fl_add L b a) (tl y) (butlast y)"

definition trapezoid :: "flib \<Rightarrow> npfloat \<Rightarrow> npfloat \<Rightarrow> npfloat" where
  "trapezoid L d s = fl_div L (fl_mul L d s) (Fin 2)"

definition fl_trapz :: "flib \<Rightarrow> npfloat list \<Rightarrow> npfloat list \<Rightarrow> npfloat" where
  "fl_trapz L y x =
     (let d = fl_diff L x; s = fl_pairsum L y in
      if length d = length s then add_reduce L (map2 (trapezoid L) d s)
      else if length d = 1 then add_reduce L (map (trapezoid L (hd d)) s)
      else add_reduce L (map (\<lambda>a. trapezoid L a (hd s)) d))"

section \<open>The spreading kernel\<close>

text \<open>
  \<^verbatim>\<open>math.gamma\<close>: \<^verbatim>\<open>ValueError\<close> at the poles, the non-positive integers, and at
  \<^verbatim>\<open>-inf\<close>; \<^verbatim>\<open>inf\<close> at \<^verbatim>\<open>inf\<close> and \<^verbatim>\<open>nan\<close> at \<^verbatim>\<open>nan\<close>; the library elsewhere.
\<close>

fun math_gamma :: "mathlib \<Rightarrow> npfloat \<Rightarrow> error + npfloat" where
  "math_gamma M (Fin v) =
     (if v \<le> 0 \<and> of_int (floor v) = v then Inl ValueError else gamma_f M v)"
| "math_gamma M PInf = Inr PInf"
| "math_gamma M NInf = Inl ValueError"
| "math_gamma M NaN = Inr NaN"

text \<open>\<^verbatim>\<open>x / y\<close> on Python floats, which raises on a zero divisor.\<close>

definition py_div :: "flib \<Rightarrow> npfloat \<Rightarrow> npfloat \<Rightarrow> error + npfloat" where
  "py_div L x y = (if y = Fin 0 then Inl ZeroDivisionError else Inr (fl_div L x y))"

text \<open>
  \<^verbatim>\<open>A1 = (2.**ms) * (gamma(ms/2+1))**2 / (np.pi * gamma(ms+1))\<close> on Python floats, in the
  order in which Python evaluates it: \<^verbatim>\<open>2.**ms\<close>, \<^verbatim>\<open>gamma(ms/2+1)\<close>, its square, the
  product, \<^verbatim>\<open>gamma(ms+1)\<close>, the product with \<^verbatim>\<open>np.pi\<close>, the quotient. The first of them
  that raises ends the call.
\<close>

definition spreading_A1 :: "flib \<Rightarrow> mathlib \<Rightarrow> real \<Rightarrow> error + npfloat" where
  "spreading_A1 L M ms =
     (case pypow_f M (Fin 2) (Fin ms) of
        Inl e \<Rightarrow> Inl e
      | Inr p2 \<Rightarrow>
     (case math_gamma M (fl_add L (fl_div L (Fin ms) (Fin 2)) (Fin 1)) of
        Inl e \<Rightarrow> Inl e
      | Inr g1 \<Rightarrow>
     (case pypow_f M g1 (Fin 2) of
        Inl e \<Rightarrow> Inl e
      | Inr g1sq \<Rightarrow>
     (case math_gamma M (fl_add L (Fin ms) (Fin 1)) of
        Inl e \<Rightarrow> Inl e
      | Inr g2 \<Rightarrow> py_div L (fl_mul L p2 g1sq) (fl_mul L (Fin double_pi) g2)))))"

text \<open>\<^verbatim>\<open>x*np.pi/180\<close>.\<close>

definition to_radians :: "flib \<Rightarrow> npfloat \<Rightarrow> npfloat" where
  "to_radians L x = fl_div L (fl_mul L x (Fin double_pi)) (Fin 180)"

text \<open>
  The body of the loop, for one direction \<open>d\<close> and the peak \<open>p\<close>, both in radians:
  \<^verbatim>\<open>cdir[i]\<close> is assigned when \<^verbatim>\<open>acos > 0\<close> and keeps its value \<^verbatim>\<open>dirs[i]*0\<close> otherwise.
\<close>

definition spreading_weight ::
  "flib \<Rightarrow> mathlib \<Rightarrow> npfloat \<Rightarrow> real \<Rightarrow> npfloat \<Rightarrow> npfloat \<Rightarrow> npfloat"
where
  "spreading_weight L M A1 ms p d =
     (let acos = np_cos M (fl_sub L d p) in
      if np_pos acos
      then fl_mul L A1 (np_maximum (power_f M acos (Fin ms)) (Fin double_1em10))
      else fl_mul L d (Fin 0))"

text \<open>
  \<^verbatim>\<open>directional_spreading(dirs, pdir, ms, units)\<close> on finite floats returns what it
  printed and its result. \<^verbatim>\<open>raise('unknown units')\<close> raises a string, which is a
  \<^verbatim>\<open>TypeError\<close>.
\<close>

definition directional_spreading ::
  "flib \<Rightarrow> mathlib \<Rightarrow> real list \<Rightarrow> real \<Rightarrow> real \<Rightarrow> string \<Rightarrow>
   message list \<times> (error + npfloat list)"
where
  "directional_spreading L M dirs pdir ms units =
     (let deg = (take 3 units = ''deg''); rad = (take 3 units = ''rad'') in
      if \<not> deg \<and> \<not> rad then ([], Inl TypeError)
      else
        let dirs' = (if deg then map (\<lambda>d. to_radians L (Fin d)) dirs
                     else map (\<lambda>d. fl_add L (Fin d) (Fin 0)) dirs);
            pdir' = (if deg then to_radians L (Fin pdir) else Fin pdir)
        in case spreading_A1 L M ms of
             Inl e \<Rightarrow> ([], Inl e)
           | Inr A1 \<Rightarrow>
               let cdir0 = map (spreading_weight L M A1 ms pdir') dirs';
                   cdir = (if deg then map (to_radians L) cdir0 else cdir0);
                   intz = fl_div L (fl_mul L (fl_trapz L cdir dirs') (Fin 180)) (Fin double_pi)
               in ((if np_less (np_abs (fl_sub L intz (Fin 1))) (Fin double_1em4) then []
                    else [IntegralNotOne ms intz]),
                   Inr cdir))"

text \<open>
  Libraries that round nothing, for test cases. The arithmetic is exact and long rows
  are added from left to right. The mathematical functions are exact, for an even
  exponent that is not negative: \<^verbatim>\<open>math.gamma\<close> is given by its values at the positive
  integers, \<open>\<Gamma>(n) = (n - 1)!\<close>, which is where such an exponent takes it (elsewhere it has
  the value at the integer below).
\<close>

definition exact_lib :: flib where
  "exact_lib = \<lparr>round_f = Fin, sum_f = (\<lambda>add ts. foldl add (Fin 0) ts)\<rparr>"

definition exact_math :: mathlib where
  "exact_math =
     \<lparr>cos_f = (\<lambda>x. Fin (cos x)),
      power_f = (\<lambda>x y. case (x, y) of (Fin a, Fin b) \<Rightarrow> Fin (a powr b) | _ \<Rightarrow> NaN),
      pypow_f = (\<lambda>x y. case (x, y) of (Fin a, Fin b) \<Rightarrow> Inr (Fin (a powr b)) | _ \<Rightarrow> Inr NaN),
      gamma_f = (\<lambda>v. Inr (Fin (fact (nat \<lfloor>v\<rfloor> - 1))))\<rparr>"
section \<open>The spectral containers\<close>

text \<open>
  The descriptive attributes of a container, which no computation reads.
\<close>

record metadata =
  md_buoy :: "string list"
  md_sensor :: "string list"
  md_source :: string
  md_y :: "real list"
  md_lat :: "real list"
  md_epsg :: "int list"
  md_text :: "string list"
  md_version :: "string list"

text \<open>
  The keyword arguments of the constructors that the computations depend on; \<open>None\<close>
  is an absent keyword. \<^verbatim>\<open>self.__dict__.update(kwargs)\<close> stores every keyword as an
  attribute.
\<close>

record kwargs =
  kw_t :: "real list option"
  kw_x :: "real list option"
  kw_lon :: "real list option"
  kw_energy_units :: "string option"
  kw_energy :: "real ndarray option"
  kw_direction :: "real ndarray option"
  kw_spreading :: "real ndarray option"
  kw_meta :: "metadata option"

definition no_kwargs :: kwargs where
  "no_kwargs = \<lparr>kw_t = None, kw_x = None, kw_lon = None, kw_energy_units = None,
                 kw_energy = None, kw_direction = None, kw_spreading = None, kw_meta = None\<rparr>"

definition default_meta :: "real \<Rightarrow> metadata" where
  "default_meta nan = \<lparr>md_buoy = [], md_sensor = [], md_source = [], md_y = [nan],
                        md_lat = [nan], md_epsg = [], md_text = [], md_version = []\<rparr>"

definition or_default :: "'a option \<Rightarrow> 'a \<Rightarrow> 'a" where
  "or_default v d = (case v of None \<Rightarrow> d | Some w \<Rightarrow> w)"

subsection \<open>Rank 1\<close>

text \<open>
  The shape \<^verbatim>\<open>(nt, nxy, nf)\<close> that the axes of a rank-1 container imply:
  \<^verbatim>\<open>nt = len(self.t)\<close>, \<^verbatim>\<open>nxy = max(len(self.x),len(self.lon))\<close>, \<^verbatim>\<open>nf = len(self.f)\<close>,
  read after the keywords have replaced the defaults.
\<close>

definition axes_shape1 :: "real \<Rightarrow> real list \<Rightarrow> kwargs \<Rightarrow> nat list" where
  "axes_shape1 nan f kw =
     [length (or_default (kw_t kw) [nan]),
      max (length (or_default (kw_x kw) [nan])) (length (or_default (kw_lon kw) [nan])),
      length f]"

record Spec1 =
  s1_f :: "real list"
  s1_t :: "real list"
  s1_x :: "real list"
  s1_lon :: "real list"
  s1_meta :: metadata
  s1_energy_units :: string
  s1_energy :: "real ndarray"
  s1_direction :: "real ndarray"
  s1_spreading :: "real ndarray"

text \<open>
  The test \<^verbatim>\<open>if a.shape==(nt,nxy,nf): ... else: raise Exception(...)\<close> of the
  constructors; the message of the exception names the shape found and the shape
  implied by the axes.
\<close>

definition check_shape :: "nat list \<Rightarrow> 'a ndarray \<Rightarrow> error + 'a ndarray" where
  "check_shape sh a = (if shape a = sh then Inr a else Inl (ShapeMismatch (shape a) sh))"

text \<open>
  \<^verbatim>\<open>Spec1.__init__(self, f, **kwargs)\<close>. The defaults \<^verbatim>\<open>[np.nan]\<close> and the arrays
  \<^verbatim>\<open>np.nan*np.zeros(...)\<close> hold \<^verbatim>\<open>nan\<close>, which is no real number: the constructors take
  the value \<open>nan\<close> that fills them as an argument. The three shape tests run in the
  order of the source, and the first that fails raises.
\<close>

definition Spec1_init :: "real \<Rightarrow> real list \<Rightarrow> kwargs \<Rightarrow> error + Spec1" where
  "Spec1_init nan f kw =
     (let sh = axes_shape1 nan f kw; blank = full sh nan in
      case check_shape sh (or_default (kw_energy kw) blank) of
        Inl e \<Rightarrow> Inl e
      | Inr energy \<Rightarrow>
         (case check_shape sh (or_default (kw_direction kw) blank) of
            Inl e \<Rightarrow> Inl e
          | Inr direction \<Rightarrow>
             (case check_shape sh (or_default (kw_spreading kw) blank) of
                Inl e \<Rightarrow> Inl e
              | Inr spreading \<Rightarrow>
                  Inr \<lparr>s1_f = f,
                       s1_t = or_default (kw_t kw) [nan],
                       s1_x = or_default (kw_x kw) [nan],
                       s1_lon = or_default (kw_lon kw) [nan],
                       s1_meta = or_default (kw_meta kw) (default_meta nan),
                       s1_energy_units = or_default (kw_energy_units kw) ''m2/Hz/deg'',
                       s1_energy = energy, s1_direction = direction,
                       s1_spreading = spreading\<rparr>)))"

subsection \<open>Rank 2\<close>

text \<open>The shape \<^verbatim>\<open>(nt, nxy, nf, nd)\<close> that the axes of a rank-2 container imply.\<close>

definition axes_shape2 :: "real \<Rightarrow> real list \<Rightarrow> real list \<Rightarrow> kwargs \<Rightarrow> nat list" where
  "axes_shape2 nan f direction kw =
     [length (or_default (kw_t kw) [nan]),
      max (length (or_default (kw_x kw) [nan])) (length (or_default (kw_lon kw) [nan])),
      length f, length direction]"

record Spec2 =
  s2_f :: "real list"
  s2_direction :: "real list"
  s2_t :: "real list"
  s2_x :: "real list"
  s2_lon :: "real list"
  s2_meta :: metadata
  s2_energy_units :: string
  s2_energy :: "real ndarray"

text \<open>
  \<^verbatim>\<open>Spec2.__init__(self, f, direction, **kwargs)\<close>; \<^verbatim>\<open>direction\<close> is the axis, a
  parameter of its own, so only the keyword \<^verbatim>\<open>energy\<close> is tested.
\<close>

definition Spec2_init :: "real \<Rightarrow> real list \<Rightarrow> real list \<Rightarrow> kwargs \<Rightarrow> error + Spec2" where
  "Spec2_init nan f direction kw =
     (let sh = axes_shape2 nan f direction kw in
      case check_shape sh (or_default (kw_energy kw) (full sh nan)) of
        Inl e \<Rightarrow> Inl e
      | Inr energy \<Rightarrow>
          Inr \<lparr>s2_f = f, s2_direction = direction,
               s2_t = or_default (kw_t kw) [nan],
               s2_x = or_default (kw_x kw) [nan],
               s2_lon = or_default (kw_lon kw) [nan],
               s2_meta = or_default (kw_meta kw) (default_meta nan),
               s2_energy_units = or_default (kw_energy_units kw) ''m2/Hz/deg'',
               s2_energy = energy\<rparr>)"

section \<open>The arithmetic of float64\<close>






section \<open>The reductions\<close>

text \<open>
  A method returns what it printed and either an exception or its value. A value is
  \<^verbatim>\<open>None\<close>, a float or an array of floats.
\<close>

type_synonym 'a run = "message list \<times> (error + 'a)"

datatype pyval = PNone | PFloat npfloat | PArray "npfloat ndarray"

definition bind_run :: "'a run \<Rightarrow> ('a \<Rightarrow> 'b run) \<Rightarrow> 'b run" where
  "bind_run r k =
     (case snd r of
        Inl e \<Rightarrow> (fst r, Inl e)
      | Inr v \<Rightarrow> (fst r @ fst (k v), snd (k v)))"

text \<open>The results of a loop, up to the first exception.\<close>

fun collect :: "(error + 'a) list \<Rightarrow> error + 'a list" where
  "collect [] = Inr []"
| "collect (Inl e # rs) = Inl e"
| "collect (Inr v # rs) = (case collect rs of Inl e \<Rightarrow> Inl e | Inr vs \<Rightarrow> Inr (v # vs))"

subsection \<open>The zeroth moment\<close>

text \<open>
  The body of the double loop of \<^verbatim>\<open>Hm0\<close>:
  \<^verbatim>\<open>np.interp(fmax,self.f,Efcum[it,ix,:]) - np.interp(fmin,self.f,Efcum[it,ix,:])\<close>.
\<close>

definition band_cell :: "npfloat \<Rightarrow> npfloat \<Rightarrow> real list \<Rightarrow> real list \<Rightarrow> error + npfloat" where
  "band_cell fmin fmax f row =
     (case interp fmax f row of
        Inl e \<Rightarrow> Inl e
      | Inr hi \<Rightarrow> (case interp fmin f row of Inl e \<Rightarrow> Inl e | Inr lo \<Rightarrow> Inr (np_sub hi lo)))"

text \<open>
  The block that computes \<^verbatim>\<open>m0\<close> from a density \<open>E\<close> of shape \<^verbatim>\<open>(nt, nxy, nf)\<close>, the
  same text in \<^verbatim>\<open>Spec1.Hm0\<close> (on \<^verbatim>\<open>self.energy\<close>) and in \<^verbatim>\<open>Spec2.Hm0\<close> (on
  \<^verbatim>\<open>spec1\<close>): the full integral for the default pair of bounds, the difference of two
  interpolated cumulative integrals otherwise.
\<close>

definition moment0 ::
  "real ndarray \<Rightarrow> real list \<Rightarrow> npfloat \<Rightarrow> npfloat \<Rightarrow> error + npfloat ndarray"
where
  "moment0 E f fmin fmax =
     (if fmin = Fin 0 \<and> fmax = PInf then
        (case trapz_last E f of
           Inl e \<Rightarrow> Inl e
         | Inr m \<Rightarrow> Inr \<lparr>shape = shape m, data = map Fin (data m)\<rparr>)
      else
        (case cumtrapz E f of
           Inl e \<Rightarrow> Inl e
         | Inr Efcum \<Rightarrow>
             (case collect (map (band_cell fmin fmax f) (rows_of Efcum)) of
                Inl e \<Rightarrow> Inl e
              | Inr cells \<Rightarrow> Inr \<lparr>shape = take 2 (shape Efcum), data = cells\<rparr>)))"

text \<open>\<^verbatim>\<open>4*np.sqrt(m0)\<close> on an array.\<close>

definition four_sqrt :: "npfloat ndarray \<Rightarrow> npfloat ndarray" where
  "four_sqrt m = m\<lparr>data := map (\<lambda>v. np_scale 4 (np_sqrt v)) (data m)\<rparr>"

definition hm0_of :: "real ndarray \<Rightarrow> real list \<Rightarrow> npfloat \<Rightarrow> npfloat \<Rightarrow> error + pyval" where
  "hm0_of E f fmin fmax =
     (case moment0 E f fmin fmax of Inl e \<Rightarrow> Inl e | Inr m0 \<Rightarrow> Inr (PArray (four_sqrt m0)))"

subsection \<open>The mean periods\<close>

text \<open>The quotient \<^verbatim>\<open>m0/mk\<close> of two arrays of one shape.\<close>

definition div_arr :: "real ndarray \<Rightarrow> real ndarray \<Rightarrow> npfloat ndarray" where
  "div_arr a b = \<lparr>shape = shape a, data = map2 np_div (data a) (data b)\<rparr>"

text \<open>
  \<^verbatim>\<open>m0 = np.trapz(E, f, axis=-1)\<close>, \<^verbatim>\<open>mk = np.trapz(E*w, f, axis=-1)\<close> and their quotient,
  with \<open>w = f\<close> for \<^verbatim>\<open>Tm01\<close> and \<open>w = f**2\<close> for \<^verbatim>\<open>Tm02\<close>.
\<close>

definition moment_ratio :: "real ndarray \<Rightarrow> real list \<Rightarrow> real list \<Rightarrow> error + npfloat ndarray" where
  "moment_ratio E f w =
     (case trapz_last E f of
        Inl e \<Rightarrow> Inl e
      | Inr m0 \<Rightarrow>
          (case mul_last E w of
             Inl e \<Rightarrow> Inl e
           | Inr Ew \<Rightarrow>
               (case trapz_last Ew f of
                  Inl e \<Rightarrow> Inl e
                | Inr mk \<Rightarrow> Inr (div_arr m0 mk))))"

definition tm01_of :: "real ndarray \<Rightarrow> real list \<Rightarrow> error + pyval" where
  "tm01_of E f =
     (case moment_ratio E f f of Inl e \<Rightarrow> Inl e | Inr q \<Rightarrow> Inr (PArray q))"

definition tm02_of :: "real ndarray \<Rightarrow> real list \<Rightarrow> error + pyval" where
  "tm02_of E f =
     (case moment_ratio E f (map (\<lambda>v. v ^ 2) f) of
        Inl e \<Rightarrow> Inl e
      | Inr q \<Rightarrow> Inr (PArray (q\<lparr>data := map np_sqrt (data q)\<rparr>)))"

subsection \<open>The peaks\<close>

text \<open>
  \<^verbatim>\<open>axis[np.argmax(a)]\<close>: \<^verbatim>\<open>np.argmax\<close> without an axis is a position in the flattened
  array.
\<close>

definition at_argmax :: "real ndarray \<Rightarrow> real list \<Rightarrow> error + real" where
  "at_argmax a axis =
     (case argmax (data a) of Inl e \<Rightarrow> Inl e | Inr i \<Rightarrow> getitem axis i)"

subsection \<open>Rank 1\<close>

definition Spec1_Hm0 :: "Spec1 \<Rightarrow> npfloat \<Rightarrow> npfloat \<Rightarrow> pyval run" where
  "Spec1_Hm0 S fmin fmax =
     (if s1_energy_units S = ''m2/Hz''
      then ([], hm0_of (s1_energy S) (s1_f S) fmin fmax)
      else ([UnknownUnitsHm0 (s1_energy_units S)], Inl TypeError))"

definition Spec1_Tm01 :: "Spec1 \<Rightarrow> pyval run" where
  "Spec1_Tm01 S =
     (if take 9 (s1_energy_units S) = ''m2/Hz''
      then ([], tm01_of (s1_energy S) (s1_f S))
      else ([UnknownUnits (s1_energy_units S)], Inr PNone))"

definition Spec1_Tm02 :: "Spec1 \<Rightarrow> pyval run" where
  "Spec1_Tm02 S =
     (if take 9 (s1_energy_units S) = ''m2/Hz''
      then ([], tm02_of (s1_energy S) (s1_f S))
      else ([UnknownUnits (s1_energy_units S)], Inr PNone))"

definition Spec1_Tp :: "Spec1 \<Rightarrow> pyval run" where
  "Spec1_Tp S =
     (if take 9 (s1_energy_units S) = ''m2/Hz''
      then ([], case at_argmax (s1_energy S) (s1_f S) of
                  Inl e \<Rightarrow> Inl e
                | Inr v \<Rightarrow> Inr (PFloat (np_div 1 v)))
      else ([UnknownUnits (s1_energy_units S)], Inr PNone))"

subsection \<open>Rank 2\<close>

text \<open>
  \<^verbatim>\<open>np.abs(np.trapz(self.energy,self.direction))\<close>, the density integrated over the
  directions.
\<close>

definition over_directions :: "Spec2 \<Rightarrow> error + real ndarray" where
  "over_directions S =
     (case trapz_last (s2_energy S) (s2_direction S) of
        Inl e \<Rightarrow> Inl e
      | Inr d \<Rightarrow> Inr (abs_arr d))"

definition Spec2_Hm0 :: "Spec2 \<Rightarrow> npfloat \<Rightarrow> npfloat \<Rightarrow> pyval run" where
  "Spec2_Hm0 S fmin fmax =
     (if take 9 (s2_energy_units S) = ''m2/Hz/deg''
      then ([], case over_directions S of
                  Inl e \<Rightarrow> Inl e
                | Inr spec1 \<Rightarrow> hm0_of spec1 (s2_f S) fmin fmax)
      else ([UnknownUnits (s2_energy_units S)], Inl TypeError))"

definition Spec2_Tm01 :: "Spec2 \<Rightarrow> pyval run" where
  "Spec2_Tm01 S =
     (if take 9 (s2_energy_units S) = ''m2/Hz/deg''
      then ([], case over_directions S of
                  Inl e \<Rightarrow> Inl e
                | Inr spec1 \<Rightarrow> tm01_of spec1 (s2_f S))
      else ([UnknownUnits (s2_energy_units S)], Inr PNone))"

definition Spec2_Tm02 :: "Spec2 \<Rightarrow> pyval run" where
  "Spec2_Tm02 S =
     (if take 9 (s2_energy_units S) = ''m2/Hz/deg''
      then ([], case over_directions S of
                  Inl e \<Rightarrow> Inl e
                | Inr spec1 \<Rightarrow> tm02_of spec1 (s2_f S))
      else ([UnknownUnits (s2_energy_units S)], Inr PNone))"

definition Spec2_Tp :: "Spec2 \<Rightarrow> pyval run" where
  "Spec2_Tp S =
     (if take 9 (s2_energy_units S) = ''m2/Hz/deg''
      then ([], case max_last (s2_energy S) of
                  Inl e \<Rightarrow> Inl e
                | Inr m \<Rightarrow>
                    (case at_argmax m (s2_f S) of
                       Inl e \<Rightarrow> Inl e
                     | Inr v \<Rightarrow> Inr (PFloat (np_div 1 v))))
      else ([UnknownUnits (s2_energy_units S)], Inr PNone))"

definition Spec2_pdir :: "Spec2 \<Rightarrow> pyval run" where
  "Spec2_pdir S =
     (if take 9 (s2_energy_units S) = ''m2/Hz/deg''
      then ([], case max_last2 (s2_energy S) of
                  Inl e \<Rightarrow> Inl e
                | Inr m \<Rightarrow>
                    (case at_argmax m (s2_direction S) of
                       Inl e \<Rightarrow> Inl e
                     | Inr v \<Rightarrow> Inr (PFloat (Fin v))))
      else ([UnknownUnits (s2_energy_units S)], Inr PNone))"

section \<open>The reductions of rank 2 on floats\<close>










subsection \<open>The direction axis reversed\<close>




section \<open>The parameter aggregate\<close>

record Spec0 =
  s0_meta :: metadata
  s0_x :: "real list"
  s0_lon :: "real list"
  s0_t :: "real list"
  s0_Hs :: pyval
  s0_Tp :: pyval
  s0_Tm01 :: pyval
  s0_Tm02 :: pyval
  s0_pdir :: pyval
  s0_ms :: pyval

text \<open>
  \<^verbatim>\<open>Spec0.__init__(self)\<close> without keywords: the lists are empty and every parameter is
  \<^verbatim>\<open>np.asarray([[]])\<close>, the empty array of shape \<^verbatim>\<open>(1, 0)\<close>. (So is \<^verbatim>\<open>t\<close>, which is
  a list here, since \<^verbatim>\<open>from_Spec\<close> replaces it by the list of the container.)
\<close>

definition empty_param :: pyval where
  "empty_param = PArray \<lparr>shape = [1, 0], data = []\<rparr>"

definition Spec0_init :: Spec0 where
  "Spec0_init =
     \<lparr>s0_meta = \<lparr>md_buoy = [], md_sensor = [], md_source = [], md_y = [], md_lat = [],
                  md_epsg = [], md_text = [], md_version = []\<rparr>,
      s0_x = [], s0_lon = [], s0_t = [],
      s0_Hs = empty_param, s0_Tp = empty_param, s0_Tm01 = empty_param,
      s0_Tm02 = empty_param, s0_pdir = empty_param, s0_ms = empty_param\<rparr>"

text \<open>
  \<^verbatim>\<open>from_Spec\<close> accepts any object; the two classes of the module are the variants of
  \<open>spec\<close>.
\<close>

datatype spec = Rank1 Spec1 | Rank2 Spec2

text \<open>
  The attributes copied by \<^verbatim>\<open>from_Spec\<close>: all of the metadata but \<^verbatim>\<open>version\<close>.
\<close>

definition copy_meta :: "metadata \<Rightarrow> metadata \<Rightarrow> metadata" where
  "copy_meta own src = src\<lparr>md_version := md_version own\<rparr>"

text \<open>
  \<^verbatim>\<open>Spec0.from_Spec(self, Spec)\<close> calls \<^verbatim>\<open>Spec.Hm0()\<close>, \<^verbatim>\<open>Spec.Tp()\<close>, \<^verbatim>\<open>Spec.Tm01()\<close>,
  \<^verbatim>\<open>Spec.Tm02()\<close> and \<^verbatim>\<open>Spec.pdir()\<close> in this order and stores the results; \<^verbatim>\<open>ms\<close> is
  not assigned. \<^verbatim>\<open>Spec1\<close> has no method \<^verbatim>\<open>pdir\<close>, so the last call raises
  \<^verbatim>\<open>AttributeError\<close> on a rank-1 container.
\<close>

fun from_Spec :: "Spec0 \<Rightarrow> spec \<Rightarrow> Spec0 run" where
  "from_Spec self (Rank2 S) =
     bind_run (Spec2_Hm0 S (Fin 0) PInf) (\<lambda>hs.
     bind_run (Spec2_Tp S) (\<lambda>tp.
     bind_run (Spec2_Tm01 S) (\<lambda>tm01.
     bind_run (Spec2_Tm02 S) (\<lambda>tm02.
     bind_run (Spec2_pdir S) (\<lambda>pd.
       ([], Inr (self\<lparr>s0_meta := copy_meta (s0_meta self) (s2_meta S),
                      s0_x := s2_x S, s0_lon := s2_lon S, s0_t := s2_t S,
                      s0_Hs := hs, s0_Tp := tp, s0_Tm01 := tm01, s0_Tm02 := tm02,
                      s0_pdir := pd\<rparr>)))))))"
| "from_Spec self (Rank1 S) =
     bind_run (Spec1_Hm0 S (Fin 0) PInf) (\<lambda>hs.
     bind_run (Spec1_Tp S) (\<lambda>tp.
     bind_run (Spec1_Tm01 S) (\<lambda>tm01.
     bind_run (Spec1_Tm02 S) (\<lambda>tm02.
       ([], Inl AttributeError)))))"

text \<open>\<^verbatim>\<open>v.shape\<close>, for a value that has one.\<close>

fun shape_of :: "pyval \<Rightarrow> nat list option" where
  "shape_of PNone = None"
| "shape_of (PFloat v) = Some []"
| "shape_of (PArray a) = Some (shape a)"

text \<open>
  The shapes of the five parameters that \<^verbatim>\<open>from_Spec\<close> assigns, in the order \<^verbatim>\<open>Hs\<close>,
  \<^verbatim>\<open>Tp\<close>, \<^verbatim>\<open>Tm01\<close>, \<^verbatim>\<open>Tm02\<close>, \<^verbatim>\<open>pdir\<close>.
\<close>

definition shapes_after :: "Spec0 run \<Rightarrow> error + (nat list option) list" where
  "shapes_after r =
     (case snd r of
        Inl e \<Rightarrow> Inl e
      | Inr s \<Rightarrow> Inr (map shape_of [s0_Hs s, s0_Tp s, s0_Tm01 s, s0_Tm02 s, s0_pdir s]))"

section \<open>Test cases\<close>

text \<open>
  A rank-1 container with one time, one location and the frequencies \<open>1, 2\<close>, whose
  energy is \<open>1\<close> at both.
\<close>

definition one_cell :: Spec1 where
  "one_cell =
     \<lparr>s1_f = [1, 2], s1_t = [0], s1_x = [0], s1_lon = [0], s1_meta = default_meta 0,
      s1_energy_units = ''m2/Hz'',
      s1_energy = \<lparr>shape = [1, 1, 2], data = [1, 1]\<rparr>,
      s1_direction = \<lparr>shape = [1, 1, 2], data = [0, 0]\<rparr>,
      s1_spreading = \<lparr>shape = [1, 1, 2], data = [10, 10]\<rparr>\<rparr>"

text \<open>
  A rank-2 container with two times, one location, the frequencies
  \<open>1, 2\<close> and the directions \<open>0, 90\<close>, as the constructor returns it for an energy
  array of shape \<^verbatim>\<open>(2, 1, 2, 2)\<close> whose largest sample is the first.
\<close>

definition two_times :: Spec2 where
  "two_times =
     \<lparr>s2_f = [1, 2], s2_direction = [0, 90], s2_t = [0, 1], s2_x = [0], s2_lon = [0],
      s2_meta = default_meta 0, s2_energy_units = ''m2/Hz/deg'',
      s2_energy = \<lparr>shape = [2, 1, 2, 2], data = [2, 1, 1, 1, 1, 1, 1, 1]\<rparr>\<rparr>"



section \<open>Properties of the spreading kernel\<close>

lemma spreading_A1_value:
  assumes "pypow_f M (Fin 2) (Fin ms) = Inr p2"
    and "math_gamma M (fl_add L (fl_div L (Fin ms) (Fin 2)) (Fin 1)) = Inr g1"
    and "pypow_f M g1 (Fin 2) = Inr g1sq"
    and "math_gamma M (fl_add L (Fin ms) (Fin 1)) = Inr g2"
    and "fl_mul L (Fin double_pi) g2 \<noteq> Fin 0"
  shows "spreading_A1 L M ms = Inr (fl_div L (fl_mul L p2 g1sq) (fl_mul L (Fin double_pi) g2))"
  using assms by (simp add: spreading_A1_def py_div_def)

lemma untouched_weight:
  assumes "round_f L 0 = Fin 0"
  shows "fl_div L (fl_mul L (fl_mul L r (Fin 0)) (Fin double_pi)) (Fin 180)
           = (case r of Fin x \<Rightarrow> Fin 0 | _ \<Rightarrow> NaN)"
  using assms by (cases r) (simp_all add: inf_of_def)

text \<open>
  Claim C3, as amended. With a unit tag that starts with \<^verbatim>\<open>deg\<close>, and for a spreading
  exponent \<open>ms\<close> at which the evaluation of \<^verbatim>\<open>A1\<close> raises nothing (the two powers and the
  two calls of \<^verbatim>\<open>math.gamma\<close> return, and the divisor is not zero), the kernel returns for
  each sample direction \<open>\<theta>\<close> the float \<open>A1 * max (c ** ms) 1e-10 * pi / 180\<close> when the
  computed cosine \<open>c\<close> of \<open>\<theta> - pdir\<close> (both converted to radians) is positive, where
  \<open>A1 = 2 ** ms * \<Gamma>(ms/2+1) ** 2 / (pi * \<Gamma>(ms+1))\<close>, and \<open>0\<close> otherwise (\<^verbatim>\<open>nan\<close> for a
  direction whose conversion overflows). Every operation is the one of the floats,
  whatever the rounding and the library return, as long as \<open>0\<close> rounds to \<open>0\<close>.
\<close>

theorem directional_spreading_deg:
  assumes "take 3 units = ''deg''"
    and "pypow_f M (Fin 2) (Fin ms) = Inr p2"
    and "math_gamma M (fl_add L (fl_div L (Fin ms) (Fin 2)) (Fin 1)) = Inr g1"
    and "pypow_f M g1 (Fin 2) = Inr g1sq"
    and "math_gamma M (fl_add L (Fin ms) (Fin 1)) = Inr g2"
    and "fl_mul L (Fin double_pi) g2 \<noteq> Fin 0"
    and "round_f L 0 = Fin 0"
  shows "snd (directional_spreading L M dirs pdir ms units) =
           Inr (map (\<lambda>\<theta>.
                  let A1 = fl_div L (fl_mul L p2 g1sq) (fl_mul L (Fin double_pi) g2);
                      r = fl_div L (fl_mul L (Fin \<theta>) (Fin double_pi)) (Fin 180);
                      p = fl_div L (fl_mul L (Fin pdir) (Fin double_pi)) (Fin 180);
                      c = np_cos M (fl_sub L r p)
                  in if np_pos c
                     then fl_div L (fl_mul L
                            (fl_mul L A1 (np_maximum (power_f M c (Fin ms)) (Fin double_1em10)))
                            (Fin double_pi)) (Fin 180)
                     else (case r of Fin x \<Rightarrow> Fin 0 | _ \<Rightarrow> NaN))
                dirs)"
proof -
  note A = spreading_A1_value [OF assms(2-6)]
  note u = untouched_weight [OF assms(7)]
  show ?thesis
    using assms(1)
    by (simp add: directional_spreading_def A spreading_weight_def to_radians_def Let_def
          comp_def u)
qed

lemma exact_lib_fields:
  "round_f exact_lib = Fin"
  "cos_f exact_math = (\<lambda>x. Fin (cos x))"
  "power_f exact_math (Fin a) (Fin b) = Fin (a powr b)"
  "pypow_f exact_math (Fin a) (Fin b) = Inr (Fin (a powr b))"
  "gamma_f exact_math v = Inr (Fin (fact (nat \<lfloor>v\<rfloor> - 1)))"
  by (simp_all add: exact_lib_def exact_math_def)

lemma double_pi_pos: "0 < double_pi"
  by (simp add: double_pi_def)

theorem directional_spreading_deg_witness:
  "snd (directional_spreading exact_lib exact_math [0, 360 / double_pi] 0 2 ''degrees_north'')
     = Inr [Fin (1 / 90), Fin 0]"
proof -
  have u: "take 3 ''degrees_north'' = ''deg''" by simp
  have p2: "pypow_f exact_math (Fin 2) (Fin 2) = Inr (Fin 4)"
    by (simp add: exact_lib_fields)
  have g1: "math_gamma exact_math (fl_add exact_lib (fl_div exact_lib (Fin 2) (Fin 2)) (Fin 1))
              = Inr (Fin 1)"
    by (simp add: exact_lib_fields)
  have sq: "pypow_f exact_math (Fin 1) (Fin 2) = Inr (Fin 1)"
    by (simp add: exact_lib_fields)
  have g2: "math_gamma exact_math (fl_add exact_lib (Fin 2) (Fin 1)) = Inr (Fin 2)"
    by (simp add: exact_lib_fields)
  have d: "fl_mul exact_lib (Fin double_pi) (Fin 2) \<noteq> Fin 0"
    using double_pi_pos by (simp add: exact_lib_fields)
  have z: "round_f exact_lib 0 = Fin 0" by (simp add: exact_lib_fields)
  have small: "max 1 double_1em10 = 1" by (simp add: double_1em10_def)
  have nc: "\<not> 0 < cos (2::real)"
    using cos_two_less_zero by (simp add: not_less less_imp_le)
  note t = directional_spreading_deg [OF u p2 g1 sq g2 d z, of "[0, 360 / double_pi]" 0]
  show ?thesis
    unfolding t using double_pi_pos
    by (simp add: exact_lib_fields fl_sub_def Let_def small nc)
qed

text \<open>
  Claim C3, as stated for every spreading exponent, fails at a negative integer: with
  \<open>ms = -2\<close> the call \<^verbatim>\<open>gamma(ms/2+1)\<close> is \<^verbatim>\<open>math.gamma(0.0)\<close>, which raises
  \<^verbatim>\<open>ValueError\<close>, so no weights are returned.
\<close>

theorem directional_spreading_pole_counterexample:
  "snd (directional_spreading exact_lib exact_math [0] 0 (- 2) ''deg'') = Inl ValueError"
  by (simp add: directional_spreading_def spreading_A1_def exact_lib_fields)

section \<open>Properties of the constructors\<close>

lemma check_shape_ok: "shape a = sh \<Longrightarrow> check_shape sh a = Inr a"
  by (simp add: check_shape_def)

lemma check_shape_bad:
  "shape a \<noteq> sh \<Longrightarrow> check_shape sh a = Inl (ShapeMismatch (shape a) sh)"
  by (simp add: check_shape_def)

lemma check_shape_default:
  "\<forall>e. v = Some e \<longrightarrow> shape e = sh \<Longrightarrow>
   check_shape sh (or_default v (full sh nan)) = Inr (or_default v (full sh nan))"
  by (cases v) (simp_all add: check_shape_def or_default_def full_def)

lemma Spec1_init_energy_mismatch:
  assumes "kw_energy kw = Some e" and "shape e \<noteq> axes_shape1 nan f kw"
  shows "Spec1_init nan f kw = Inl (ShapeMismatch (shape e) (axes_shape1 nan f kw))"
proof -
  have "check_shape (axes_shape1 nan f kw)
          (or_default (kw_energy kw) (full (axes_shape1 nan f kw) nan))
        = Inl (ShapeMismatch (shape e) (axes_shape1 nan f kw))"
    using assms by (simp add: or_default_def check_shape_bad)
  then show ?thesis by (simp add: Spec1_init_def Let_def)
qed

lemma Spec1_init_direction_mismatch:
  assumes "kw_direction kw = Some d" and "shape d \<noteq> axes_shape1 nan f kw"
    and "\<forall>e. kw_energy kw = Some e \<longrightarrow> shape e = axes_shape1 nan f kw"
  shows "Spec1_init nan f kw = Inl (ShapeMismatch (shape d) (axes_shape1 nan f kw))"
proof -
  have "check_shape (axes_shape1 nan f kw)
          (or_default (kw_direction kw) (full (axes_shape1 nan f kw) nan))
        = Inl (ShapeMismatch (shape d) (axes_shape1 nan f kw))"
    using assms(1,2) by (simp add: or_default_def check_shape_bad)
  then show ?thesis
    by (simp add: Spec1_init_def Let_def check_shape_default [OF assms(3)])
qed

lemma Spec1_init_spreading_mismatch:
  assumes "kw_spreading kw = Some s" and "shape s \<noteq> axes_shape1 nan f kw"
    and "\<forall>e. kw_energy kw = Some e \<longrightarrow> shape e = axes_shape1 nan f kw"
    and "\<forall>d. kw_direction kw = Some d \<longrightarrow> shape d = axes_shape1 nan f kw"
  shows "Spec1_init nan f kw = Inl (ShapeMismatch (shape s) (axes_shape1 nan f kw))"
proof -
  have "check_shape (axes_shape1 nan f kw)
          (or_default (kw_spreading kw) (full (axes_shape1 nan f kw) nan))
        = Inl (ShapeMismatch (shape s) (axes_shape1 nan f kw))"
    using assms(1,2) by (simp add: or_default_def check_shape_bad)
  then show ?thesis
    by (simp add: Spec1_init_def Let_def check_shape_default [OF assms(3)]
          check_shape_default [OF assms(4)])
qed

lemma Spec1_init_mismatch:
  assumes "Some arr \<in> {kw_energy kw, kw_direction kw, kw_spreading kw}"
    and "shape arr \<noteq> axes_shape1 nan f kw"
  shows "\<exists>b. Some b \<in> {kw_energy kw, kw_direction kw, kw_spreading kw}
             \<and> shape b \<noteq> axes_shape1 nan f kw
             \<and> Spec1_init nan f kw = Inl (ShapeMismatch (shape b) (axes_shape1 nan f kw))"
proof (cases "\<forall>e. kw_energy kw = Some e \<longrightarrow> shape e = axes_shape1 nan f kw")
  case False
  then obtain e where e: "kw_energy kw = Some e" "shape e \<noteq> axes_shape1 nan f kw" by blast
  have "Spec1_init nan f kw = Inl (ShapeMismatch (shape e) (axes_shape1 nan f kw))"
    using e by (rule Spec1_init_energy_mismatch)
  then show ?thesis using e by (intro exI [of _ e]) simp
next
  case eok: True
  show ?thesis
  proof (cases "\<forall>d. kw_direction kw = Some d \<longrightarrow> shape d = axes_shape1 nan f kw")
    case False
    then obtain d where d: "kw_direction kw = Some d" "shape d \<noteq> axes_shape1 nan f kw"
      by blast
    have "Spec1_init nan f kw = Inl (ShapeMismatch (shape d) (axes_shape1 nan f kw))"
      using d eok by (rule Spec1_init_direction_mismatch)
    then show ?thesis using d by (intro exI [of _ d]) simp
  next
    case dok: True
    have s: "kw_spreading kw = Some arr"
      using assms eok dok by auto
    have "Spec1_init nan f kw = Inl (ShapeMismatch (shape arr) (axes_shape1 nan f kw))"
      using s assms(2) eok dok by (rule Spec1_init_spreading_mismatch)
    then show ?thesis using s assms(2) by (intro exI [of _ arr]) simp
  qed
qed

lemma Spec2_init_mismatch:
  assumes "kw_energy kw = Some e" and "shape e \<noteq> axes_shape2 nan f direction kw"
  shows "Spec2_init nan f direction kw
           = Inl (ShapeMismatch (shape e) (axes_shape2 nan f direction kw))"
proof -
  have "check_shape (axes_shape2 nan f direction kw)
          (or_default (kw_energy kw) (full (axes_shape2 nan f direction kw) nan))
        = Inl (ShapeMismatch (shape e) (axes_shape2 nan f direction kw))"
    using assms by (simp add: or_default_def check_shape_bad)
  then show ?thesis by (simp add: Spec2_init_def Let_def)
qed

text \<open>
  Claim C4. When a supplied array (\<^verbatim>\<open>energy\<close>, or for rank 1 also \<^verbatim>\<open>direction\<close> or
  \<^verbatim>\<open>spreading\<close>) has a shape other than the one the axes imply, the constructor raises
  the shape-mismatch error, which names the shape of a supplied array that does not fit
  and the shape expected. For rank 1 the array named is the first of the three that
  fails; for rank 2 it is \<^verbatim>\<open>energy\<close>. Nothing is broadcast: no container is returned.
\<close>

theorem init_shape_mismatch:
  "(\<forall>arr. Some arr \<in> {kw_energy kw, kw_direction kw, kw_spreading kw}
          \<and> shape arr \<noteq> axes_shape1 nan f kw \<longrightarrow>
      (\<exists>b. Some b \<in> {kw_energy kw, kw_direction kw, kw_spreading kw}
           \<and> shape b \<noteq> axes_shape1 nan f kw
           \<and> Spec1_init nan f kw = Inl (ShapeMismatch (shape b) (axes_shape1 nan f kw))))
   \<and> (\<forall>e. kw_energy kw = Some e \<and> shape e \<noteq> axes_shape2 nan f direction kw \<longrightarrow>
        Spec2_init nan f direction kw
          = Inl (ShapeMismatch (shape e) (axes_shape2 nan f direction kw)))"
proof (intro conjI allI impI)
  fix arr
  assume "Some arr \<in> {kw_energy kw, kw_direction kw, kw_spreading kw}
          \<and> shape arr \<noteq> axes_shape1 nan f kw"
  then show "\<exists>b. Some b \<in> {kw_energy kw, kw_direction kw, kw_spreading kw}
           \<and> shape b \<noteq> axes_shape1 nan f kw
           \<and> Spec1_init nan f kw = Inl (ShapeMismatch (shape b) (axes_shape1 nan f kw))"
    using Spec1_init_mismatch [of arr kw nan f] by blast
next
  fix e
  assume "kw_energy kw = Some e \<and> shape e \<noteq> axes_shape2 nan f direction kw"
  then show "Spec2_init nan f direction kw
          = Inl (ShapeMismatch (shape e) (axes_shape2 nan f direction kw))"
    using Spec2_init_mismatch [of kw e nan f direction] by blast
qed

theorem init_shape_mismatch_witness:
  "Spec1_init 0 [0.1, 0.2, 0.3, 0.4] (no_kwargs\<lparr>kw_energy := Some (full [2, 3, 4] 0)\<rparr>)
     = Inl (ShapeMismatch [2, 3, 4] [1, 1, 4])
   \<and> Spec2_init 0 [0.1, 0.2, 0.3, 0.4] [0, 90] (no_kwargs\<lparr>kw_energy := Some (full [2, 3, 4] 0)\<rparr>)
     = Inl (ShapeMismatch [2, 3, 4] [1, 1, 4, 2])"
proof -
  let ?kw = "no_kwargs\<lparr>kw_energy := Some (full [2, 3, 4] 0)\<rparr>"
  let ?f = "[0.1, 0.2, 0.3, 0.4 :: real]"
  have k: "kw_energy ?kw = Some (full [2, 3, 4] 0)" "kw_direction ?kw = None"
    "kw_spreading ?kw = None"
    by (simp_all add: no_kwargs_def)
  have s: "shape (full [2, 3, 4] (0::real)) = [2, 3, 4]" by (simp add: full_def)
  have a1: "axes_shape1 0 ?f ?kw = [1, 1, 4]"
    by (simp add: axes_shape1_def no_kwargs_def or_default_def)
  have a2: "axes_shape2 0 ?f [0, 90] ?kw = [1, 1, 4, 2]"
    by (simp add: axes_shape2_def no_kwargs_def or_default_def)
  note m = init_shape_mismatch [of ?kw 0 ?f "[0, 90]"]
  have h1: "Some (full [2, 3, 4] 0) \<in> {kw_energy ?kw, kw_direction ?kw, kw_spreading ?kw}
            \<and> shape (full [2, 3, 4] (0::real)) \<noteq> axes_shape1 0 ?f ?kw"
    unfolding k a1 s by simp
  obtain b where b: "Some b \<in> {kw_energy ?kw, kw_direction ?kw, kw_spreading ?kw}"
    and r: "Spec1_init 0 ?f ?kw = Inl (ShapeMismatch (shape b) (axes_shape1 0 ?f ?kw))"
    using m [THEN conjunct1, rule_format, OF h1] by blast
  have "b = full [2, 3, 4] 0" using b unfolding k by simp
  then have 1: "Spec1_init 0 ?f ?kw = Inl (ShapeMismatch [2, 3, 4] [1, 1, 4])"
    using r unfolding a1 by (simp only: s)
  have h2: "kw_energy ?kw = Some (full [2, 3, 4] 0)
            \<and> shape (full [2, 3, 4] (0::real)) \<noteq> axes_shape2 0 ?f [0, 90] ?kw"
    unfolding k a2 s by simp
  have 2: "Spec2_init 0 ?f [0, 90] ?kw = Inl (ShapeMismatch [2, 3, 4] [1, 1, 4, 2])"
    using m [THEN conjunct2, rule_format, OF h2] unfolding a2 by (simp only: s)
  from 1 2 show ?thesis by (rule conjI)
qed

text \<open>
  Claim C9 fails in the constructor: \<^verbatim>\<open>Spec1.__init__\<close> called with no keyword sets
  \<^verbatim>\<open>energy_units\<close> to \<^verbatim>\<open>'m2/Hz/deg'\<close>, the tag of rank 2, and not to \<^verbatim>\<open>'m2/Hz'\<close>.
\<close>

theorem Spec1_init_default_units:
  "map_sum id s1_energy_units (Spec1_init nan f no_kwargs) = Inr ''m2/Hz/deg''"
proof -
  have "check_shape (axes_shape1 nan f no_kwargs) (full (axes_shape1 nan f no_kwargs) nan)
          = Inr (full (axes_shape1 nan f no_kwargs) nan)"
    by (simp add: check_shape_def full_def)
  then show ?thesis
    by (simp add: Spec1_init_def Let_def no_kwargs_def or_default_def)
qed

section \<open>Unknown units\<close>

lemma Spec1_unknown_units_None:
  assumes "take 9 (s1_energy_units S) \<noteq> ''m2/Hz''"
  shows "Spec1_Tm01 S = ([UnknownUnits (s1_energy_units S)], Inr PNone)"
    and "Spec1_Tm02 S = ([UnknownUnits (s1_energy_units S)], Inr PNone)"
    and "Spec1_Tp S = ([UnknownUnits (s1_energy_units S)], Inr PNone)"
  using assms by (simp_all add: Spec1_Tm01_def Spec1_Tm02_def Spec1_Tp_def)

lemma Spec2_unknown_units_None:
  assumes "take 9 (s2_energy_units S) \<noteq> ''m2/Hz/deg''"
  shows "Spec2_Tm01 S = ([UnknownUnits (s2_energy_units S)], Inr PNone)"
    and "Spec2_Tm02 S = ([UnknownUnits (s2_energy_units S)], Inr PNone)"
    and "Spec2_Tp S = ([UnknownUnits (s2_energy_units S)], Inr PNone)"
    and "Spec2_pdir S = ([UnknownUnits (s2_energy_units S)], Inr PNone)"
  using assms by (simp_all add: Spec2_Tm01_def Spec2_Tm02_def Spec2_Tp_def Spec2_pdir_def)

text \<open>
  Claim C2 holds for \<^verbatim>\<open>Tm01\<close>, \<^verbatim>\<open>Tm02\<close>, \<^verbatim>\<open>Tp\<close> and \<^verbatim>\<open>pdir\<close> (the two lemmas
  above) and fails for \<^verbatim>\<open>Hm0\<close>: on a tag that does not match, both \<^verbatim>\<open>Hm0\<close> methods
  print the diagnostic, set \<^verbatim>\<open>m0 = None\<close> and then evaluate \<^verbatim>\<open>4*np.sqrt(m0)\<close>, which
  raises instead of returning \<^verbatim>\<open>None\<close>.
\<close>

theorem Hm0_unknown_units_raises:
  "Spec1_Hm0 (S1\<lparr>s1_energy_units := ''m2/Hz/deg''\<rparr>) fmin fmax
     = ([UnknownUnitsHm0 ''m2/Hz/deg''], Inl TypeError)
   \<and> Spec2_Hm0 (S2\<lparr>s2_energy_units := ''m2/Hz''\<rparr>) fmin fmax
     = ([UnknownUnits ''m2/Hz''], Inl TypeError)"
  by (simp add: Spec1_Hm0_def Spec2_Hm0_def)

lemma from_Spec_Rank1_raises: "\<exists>e. snd (from_Spec self (Rank1 S)) = Inl e"
  by (auto simp: bind_run_def split: sum.splits)

section \<open>Properties of the parameter aggregate\<close>

lemma two_times_constructed:
  "Spec2_init 0 [1, 2] [0, 90]
     (no_kwargs\<lparr>kw_t := Some [0, 1],
                 kw_energy := Some \<lparr>shape = [2, 1, 2, 2], data = [2, 1, 1, 1, 1, 1, 1, 1]\<rparr>\<rparr>)
   = Inr two_times"
  by (simp add: two_times_def Spec2_init_def axes_shape2_def check_shape_def no_kwargs_def
        or_default_def Let_def)

lemma upt_small: "[0..<4] = [0, 1, 2, 3]" "[0..<2] = [0, 1]"
  by (simp_all add: upt_rec)

lemmas eval_defs = over_directions_def trapz_last_def bcast_ok_def rows_of_def
  chunks_def upt_small trapz_val_def diff_def pairsum_def abs_arr_def hm0_of_def moment0_def
  four_sqrt_def tm01_of_def tm02_of_def moment_ratio_def mul_last_def div_arr_def np_div_def
  max_last_def max_last2_def at_argmax_def argmax_def getitem_def Let_def

lemma two_times_Hm0:
  "Spec2_Hm0 two_times (Fin 0) PInf
   = ([], Inr (PArray \<lparr>shape = [2, 1], data = [Fin (4 * sqrt (225 / 2)), Fin (4 * sqrt 90)]\<rparr>))"
  by (simp add: two_times_def Spec2_Hm0_def eval_defs)

lemma two_times_Tp: "Spec2_Tp two_times = ([], Inr (PFloat (Fin 1)))"
  by (simp add: two_times_def Spec2_Tp_def eval_defs)

lemma two_times_pdir: "Spec2_pdir two_times = ([], Inr (PFloat (Fin 0)))"
  by (simp add: two_times_def Spec2_pdir_def eval_defs)

lemma two_times_Tm01:
  "\<exists>a b. Spec2_Tm01 two_times = ([], Inr (PArray \<lparr>shape = [2, 1], data = [a, b]\<rparr>))"
  by (simp add: two_times_def Spec2_Tm01_def eval_defs)

lemma two_times_Tm02:
  "\<exists>a b. Spec2_Tm02 two_times = ([], Inr (PArray \<lparr>shape = [2, 1], data = [a, b]\<rparr>))"
  by (simp add: two_times_def Spec2_Tm02_def eval_defs)

text \<open>
  Claim C6 fails on the test case with two times: \<^verbatim>\<open>Hs\<close>, \<^verbatim>\<open>Tm01\<close> and \<^verbatim>\<open>Tm02\<close> have
  the shape \<^verbatim>\<open>(nt, nxy) = (2, 1)\<close>, while \<^verbatim>\<open>Tp\<close> and \<^verbatim>\<open>pdir\<close> are single floats,
  since their \<^verbatim>\<open>np.argmax\<close> runs over the flattened array.
\<close>

theorem from_Spec_shapes_differ:
  "shapes_after (from_Spec Spec0_init (Rank2 two_times))
     = Inr [Some [2, 1], Some [], Some [2, 1], Some [2, 1], Some []]"
proof -
  obtain a b where t1: "Spec2_Tm01 two_times = ([], Inr (PArray \<lparr>shape = [2, 1], data = [a, b]\<rparr>))"
    using two_times_Tm01 by blast
  obtain c d where t2: "Spec2_Tm02 two_times = ([], Inr (PArray \<lparr>shape = [2, 1], data = [c, d]\<rparr>))"
    using two_times_Tm02 by blast
  show ?thesis
    by (simp add: shapes_after_def bind_run_def two_times_Hm0 two_times_Tp two_times_pdir t1 t2)
qed

lemma from_Spec_keeps_ms:
  "snd (from_Spec self sp) = Inr r \<Longrightarrow> s0_ms r = s0_ms self"
  by (cases sp) (auto simp: bind_run_def split: sum.splits)

text \<open>
  When the largest sample lies in the second time step, the flat position of the
  maximum is beyond the frequency axis, and \<^verbatim>\<open>Tp\<close> raises \<^verbatim>\<open>IndexError\<close>.
\<close>

lemma Spec2_Tp_late_peak:
  "Spec2_Tp (two_times\<lparr>s2_energy := \<lparr>shape = [2, 1, 2, 2], data = [1, 1, 1, 1, 2, 1, 1, 1]\<rparr>\<rparr>)
     = ([], Inl IndexError)"
  by (simp add: two_times_def Spec2_Tp_def eval_defs)

section \<open>Bounds outside the sampled band\<close>

lemma interp_knots_right:
  assumes "sorted_wrt (<) xp" and "length xp = length fp" and "xp \<noteq> []" and "last xp \<le> v"
  shows "interp_knots v (zip xp fp) = last fp"
  using assms
proof (induction xp arbitrary: fp rule: induct_list012)
  case 1
  then show ?case by simp
next
  case (2 x0)
  then obtain y0 where "fp = [y0]" by (cases fp) auto
  then show ?case by simp
next
  case (3 x0 x1 xs)
  then obtain y0 y1 ys where fp: "fp = y0 # y1 # ys" and len: "length xs = length ys"
    by (cases fp; cases "tl fp") auto
  have "x1 \<le> last (x1 # xs)"
    using "3.prems"(1) by (cases xs) (auto simp: less_imp_le)
  then have nl: "\<not> v < x1" using "3.prems"(4) by simp
  have "interp_knots v (zip (x1 # xs) (y1 # ys)) = last (y1 # ys)"
    using "3.IH"(2) [of "y1 # ys"] "3.prems" len by simp
  then show ?case using nl fp by simp
qed

lemma interp_knots_left:
  assumes "sorted_wrt (<) xp" and "length xp = length fp" and "xp \<noteq> []" and "v \<le> hd xp"
  shows "interp_knots v (zip xp fp) = hd fp"
proof (cases xp)
  case Nil
  then show ?thesis using assms by simp
next
  case (Cons x0 xs)
  then obtain y0 ys where fp: "fp = y0 # ys" using assms(2) by (cases fp) auto
  show ?thesis
  proof (cases xs)
    case Nil
    then show ?thesis using Cons fp assms(2) by simp
  next
    case c: (Cons x1 xs')
    then obtain y1 ys' where ys: "ys = y1 # ys'" using assms(2) Cons fp by (cases ys) auto
    have "v < x1" using assms(1,4) Cons c by auto
    then show ?thesis using Cons c fp ys assms(4) by simp
  qed
qed

lemma interp_right:
  assumes "sorted_wrt (<) xp" and "xp \<noteq> []" and "last xp \<le> v"
  shows "interp (Fin v) xp fp = interp PInf xp fp"
  using assms by (simp add: interp_def interp_knots_right)

lemma interp_left:
  assumes "sorted_wrt (<) xp" and "xp \<noteq> []" and "v \<le> hd xp"
  shows "interp (Fin v) xp fp = interp NInf xp fp"
  using assms by (simp add: interp_def interp_knots_left)

lemma band_cell_right:
  assumes "sorted_wrt (<) f" and "f \<noteq> []" and "last f \<le> v"
  shows "band_cell lo (Fin v) f row = band_cell lo PInf f row"
  unfolding band_cell_def interp_right [OF assms] by (rule refl)

lemma band_cell_left:
  assumes "sorted_wrt (<) f" and "f \<noteq> []" and "v \<le> hd f"
  shows "band_cell (Fin v) hi f row = band_cell NInf hi f row"
  unfolding band_cell_def interp_left [OF assms] by (rule refl)

lemma hm0_of_right:
  assumes "sorted_wrt (<) f" and "f \<noteq> []" and "last f \<le> v" and "lo \<noteq> Fin 0"
  shows "hm0_of E f lo (Fin v) = hm0_of E f lo PInf"
  using assms(4) unfolding hm0_of_def moment0_def band_cell_right [OF assms(1-3)] by simp

lemma hm0_of_left:
  assumes "sorted_wrt (<) f" and "f \<noteq> []" and "v \<le> hd f" and "v \<noteq> 0"
  shows "hm0_of E f (Fin v) hi = hm0_of E f NInf hi"
  using assms(4) unfolding hm0_of_def moment0_def band_cell_left [OF assms(1-3)] by simp

text \<open>
  Claim C10. On a strictly increasing, non-empty frequency axis and for \<open>fmin > 0\<close>
  (so that the bounds are never the default pair), \<^verbatim>\<open>Spec1.Hm0(fmin, fmax)\<close> with
  \<open>fmax\<close> at or beyond the last frequency, or infinite, is \<^verbatim>\<open>Hm0(fmin, f[-1])\<close>, and
  with \<open>fmin\<close> at or below the first frequency it is \<^verbatim>\<open>Hm0(f[0], fmax)\<close>: the
  interpolation of the cumulative integral stops at the values of the end points. The
  equalities are between whole results, so nothing is printed or raised for a bound
  outside the band that is not printed or raised for the end point.
\<close>

theorem Hm0_band_clamps:
  assumes "sorted_wrt (<) (s1_f S)" and "s1_f S \<noteq> []" and "0 < fmin"
  shows "(last (s1_f S) \<le> fmax \<longrightarrow>
            Spec1_Hm0 S (Fin fmin) (Fin fmax) = Spec1_Hm0 S (Fin fmin) (Fin (last (s1_f S))))
       \<and> Spec1_Hm0 S (Fin fmin) PInf = Spec1_Hm0 S (Fin fmin) (Fin (last (s1_f S)))
       \<and> (fmin \<le> hd (s1_f S) \<longrightarrow>
            Spec1_Hm0 S (Fin fmin) hi = Spec1_Hm0 S (Fin (hd (s1_f S))) hi)"
proof (intro conjI impI)
  have lo: "Fin fmin \<noteq> Fin 0" using assms(3) by simp
  have e: "hm0_of E (s1_f S) (Fin fmin) (Fin (last (s1_f S))) = hm0_of E (s1_f S) (Fin fmin) PInf"
    for E
    using assms(1,2) lo by (intro hm0_of_right) simp_all
  show "Spec1_Hm0 S (Fin fmin) PInf = Spec1_Hm0 S (Fin fmin) (Fin (last (s1_f S)))"
    by (simp add: Spec1_Hm0_def e)
  show "Spec1_Hm0 S (Fin fmin) (Fin fmax) = Spec1_Hm0 S (Fin fmin) (Fin (last (s1_f S)))"
    if "last (s1_f S) \<le> fmax"
    using hm0_of_right [OF assms(1,2) that lo] by (simp add: Spec1_Hm0_def e)
  show "Spec1_Hm0 S (Fin fmin) hi = Spec1_Hm0 S (Fin (hd (s1_f S))) hi"
    if h: "fmin \<le> hd (s1_f S)"
  proof -
    have 1: "hm0_of E (s1_f S) (Fin fmin) hi = hm0_of E (s1_f S) NInf hi" for E
      using assms h by (intro hm0_of_left) simp_all
    have 2: "hm0_of E (s1_f S) (Fin (hd (s1_f S))) hi = hm0_of E (s1_f S) NInf hi" for E
      using assms h by (intro hm0_of_left) simp_all
    show ?thesis by (simp add: Spec1_Hm0_def 1 2)
  qed
qed

lemma upt_one: "[0..<1] = [0]"
  by (simp add: upt_rec)

lemma one_cell_band:
  "Spec1_Hm0 one_cell (Fin (1 / 2)) (Fin 2) = ([], Inr (PArray \<lparr>shape = [1, 1], data = [Fin 4]\<rparr>))"
  by (simp add: one_cell_def Spec1_Hm0_def hm0_of_def moment0_def cumtrapz_def rows_of_def
        chunks_def upt_one cumtrapz_row_def diff_def pairsum_def band_cell_def interp_def
        four_sqrt_def)

theorem Hm0_band_clamps_witness:
  "Spec1_Hm0 one_cell (Fin (1 / 2)) (Fin 3) = ([], Inr (PArray \<lparr>shape = [1, 1], data = [Fin 4]\<rparr>))
   \<and> Spec1_Hm0 one_cell (Fin (1 / 2)) PInf = ([], Inr (PArray \<lparr>shape = [1, 1], data = [Fin 4]\<rparr>))
   \<and> Spec1_Hm0 one_cell (Fin 1) PInf = ([], Inr (PArray \<lparr>shape = [1, 1], data = [Fin 4]\<rparr>))"
proof -
  have f: "s1_f one_cell = [1, 2]" by (simp add: one_cell_def)
  have h: "sorted_wrt (<) (s1_f one_cell)" "s1_f one_cell \<noteq> []" "(0::real) < 1 / 2"
    "last (s1_f one_cell) \<le> 3" "1 / 2 \<le> hd (s1_f one_cell)"
    "last (s1_f one_cell) = 2" "hd (s1_f one_cell) = 1"
    unfolding f by simp_all
  note c = Hm0_band_clamps [OF h(1,2,3), of 3 PInf]
  have 1: "Spec1_Hm0 one_cell (Fin (1 / 2)) (Fin 3) = Spec1_Hm0 one_cell (Fin (1 / 2)) (Fin 2)"
    using c [THEN conjunct1, rule_format, OF h(4)] unfolding h(6) .
  have 2: "Spec1_Hm0 one_cell (Fin (1 / 2)) PInf = Spec1_Hm0 one_cell (Fin (1 / 2)) (Fin 2)"
    using c [THEN conjunct2, THEN conjunct1] unfolding h(6) .
  have 3: "Spec1_Hm0 one_cell (Fin (1 / 2)) PInf = Spec1_Hm0 one_cell (Fin 1) PInf"
    using c [THEN conjunct2, THEN conjunct2, rule_format, OF h(5)] unfolding h(7) .
  show ?thesis
    using 1 2 3 one_cell_band by simp
qed

section \<open>Rows of arrays and reversed axes\<close>











section \<open>Negation and the rounded operations\<close>










section \<open>One row reversed\<close>









section \<open>The container reversed\<close>



section \<open>Reversal on float64\<close>






















end
